theory Spec2Isabelle
  imports Main
begin

section \<open>The users table and the embedded store\<close>

text \<open>
  The module \<^verbatim>\<open>agent/tools/tools.py\<close> keeps one table,
  \<^verbatim>\<open>users(id INTEGER PRIMARY KEY AUTOINCREMENT, name TEXT NOT NULL, email TEXT NOT NULL UNIQUE)\<close>.
  A row of it is a record; the Python dictionaries \<^verbatim>\<open>{"id": .., "name": .., "email": ..}\<close>
  built from a row are the same record. The modules \<^verbatim>\<open>src/database.py\<close> and
  \<^verbatim>\<open>tools/tools.py\<close> are earlier copies of five of its seven tools and are not modelled.
\<close>

record user =
  uid :: int
  uname :: string
  uemail :: string

text \<open>
  The database file: the rows of \<^verbatim>\<open>users\<close> in the order of the rowid B-tree, and the
  counter that \<^verbatim>\<open>AUTOINCREMENT\<close> keeps in \<^verbatim>\<open>sqlite_sequence\<close> (the largest
  rowid ever given out; it survives the deletion of rows).
\<close>

record db =
  users :: "user list"
  sqlite_sequence :: int

definition empty_db :: db where
  "empty_db = \<lparr>users = [], sqlite_sequence = 0\<rparr>"

text \<open>
  The Python process that serves the tools: the database file, and whether a connection that
  a tool left open still holds the write lock of the file. Every tool opens its own
  connection. \<^verbatim>\<open>create_user\<close> and \<^verbatim>\<open>update_user\<close> close it on the path without an
  exception only; when their statement raises \<^verbatim>\<open>sqlite3.IntegrityError\<close> the handler
  returns with the implicit transaction of the rejected statement still open, and that
  connection keeps the write lock until the Python collector reclaims it. While it does, reads
  go through and every write of another connection fails with
  \<^verbatim>\<open>sqlite3.OperationalError: database is locked\<close>. Connections left open by other
  exceptions hold no lock. The waiting time before a locked write gives up, other faults of
  the environment (an unreadable file, a full disk) and the exhaustion of the 64-bit rowid
  space by the counter are outside this model.
\<close>

record process =
  database :: db
  leaked_lock :: bool

definition fresh_process :: process where
  "fresh_process = \<lparr>database = empty_db, leaked_lock = False\<rparr>"

text \<open>The Python exceptions that the statements raise.\<close>

datatype exn = IntegrityError | OperationalError string | OverflowError

definition locked_message :: string where
  "locked_message = ''database is locked''"

definition overflow_message :: string where
  "overflow_message = ''Python int too large to convert to SQLite INTEGER''"

text \<open>\<^verbatim>\<open>str(e)\<close> of a caught exception. The text of an \<^verbatim>\<open>IntegrityError\<close> is never
  used: the handlers before the catch-all take it.\<close>

fun str_exn :: "exn \<Rightarrow> string" where
  "str_exn (OperationalError m) = m"
| "str_exn OverflowError = overflow_message"
| "str_exn IntegrityError = ''UNIQUE constraint failed: users.email''"

text \<open>A Python integer can be bound to a statement parameter only when it fits a signed
  64-bit integer; otherwise \<^verbatim>\<open>execute\<close> raises \<^verbatim>\<open>OverflowError\<close>.\<close>

definition in_int64 :: "int \<Rightarrow> bool" where
  "in_int64 i \<longleftrightarrow> - (2 ^ 63) \<le> i \<and> i < 2 ^ 63"

fun max_rowid :: "user list \<Rightarrow> int" where
  "max_rowid [] = 0"
| "max_rowid (u # us) = max (uid u) (max_rowid us)"

text \<open>\<^verbatim>\<open>INSERT INTO users (name, email) VALUES (?, ?)\<close> followed by \<^verbatim>\<open>lastrowid\<close>:
  a held write lock fails the statement; the UNIQUE constraint on \<^verbatim>\<open>email\<close> aborts it;
  otherwise the new row gets a rowid one larger than every rowid of the table and than the
  counter.\<close>

definition sql_insert :: "string \<Rightarrow> string \<Rightarrow> process \<Rightarrow> exn + (process \<times> int)" where
  "sql_insert name email s =
     (if leaked_lock s then Inl (OperationalError locked_message)
      else if email \<in> set (map uemail (users (database s))) then Inl IntegrityError
      else let rowid = max (sqlite_sequence (database s)) (max_rowid (users (database s))) + 1
           in Inr (s\<lparr>database :=
                        \<lparr>users = users (database s)
                                   @ [\<lparr>uid = rowid, uname = name, uemail = email\<rparr>],
                         sqlite_sequence = rowid\<rparr>\<rparr>, rowid))"

text \<open>\<^verbatim>\<open>SELECT id, name, email FROM users WHERE id = ?\<close> with \<^verbatim>\<open>fetchone()\<close>.\<close>

definition sql_select_by_id :: "int \<Rightarrow> process \<Rightarrow> exn + user option" where
  "sql_select_by_id user_id s =
     (if in_int64 user_id then Inr (find (\<lambda>u. uid u = user_id) (users (database s)))
      else Inl OverflowError)"

text \<open>\<^verbatim>\<open>UPDATE users SET name = ?, email = ? WHERE id = ?\<close> with \<^verbatim>\<open>rowcount\<close>: a row
  that would take an email held by a row with another id aborts the statement.\<close>

definition sql_update :: "string \<Rightarrow> string \<Rightarrow> int \<Rightarrow> process \<Rightarrow> exn + (process \<times> int)" where
  "sql_update name email user_id s =
     (if \<not> in_int64 user_id then Inl OverflowError
      else if leaked_lock s then Inl (OperationalError locked_message)
      else if list_ex (\<lambda>u. uid u = user_id) (users (database s)) then
        (if list_ex (\<lambda>u. uid u \<noteq> user_id \<and> uemail u = email) (users (database s))
         then Inl IntegrityError
         else Inr (s\<lparr>database :=
                        \<lparr>users = map (\<lambda>u. if uid u = user_id
                                           then u\<lparr>uname := name, uemail := email\<rparr> else u)
                                      (users (database s)),
                         sqlite_sequence = sqlite_sequence (database s)\<rparr>\<rparr>,
                   int (length (filter (\<lambda>u. uid u = user_id) (users (database s))))))
      else Inr (s, 0))"

text \<open>\<^verbatim>\<open>DELETE FROM users WHERE id = ?\<close> with \<^verbatim>\<open>rowcount\<close>.\<close>

definition sql_delete :: "int \<Rightarrow> process \<Rightarrow> exn + (process \<times> int)" where
  "sql_delete user_id s =
     (if \<not> in_int64 user_id then Inl OverflowError
      else if leaked_lock s then Inl (OperationalError locked_message)
      else Inr (s\<lparr>database :=
                     \<lparr>users = filter (\<lambda>u. uid u \<noteq> user_id) (users (database s)),
                      sqlite_sequence = sqlite_sequence (database s)\<rparr>\<rparr>,
                int (length (filter (\<lambda>u. uid u = user_id) (users (database s))))))"

text \<open>\<^verbatim>\<open>SELECT id, name, email FROM users\<close> with \<^verbatim>\<open>fetchall()\<close>. The statement has no
  \<^verbatim>\<open>ORDER BY\<close>; the store answers it by a scan of the rowid B-tree, which is the order in
  which the model keeps the rows.\<close>

definition sql_select_all :: "process \<Rightarrow> user list" where
  "sql_select_all s = users (database s)"

text \<open>\<^verbatim>\<open>SELECT COUNT(*) as count FROM users\<close>.\<close>

definition sql_count :: "process \<Rightarrow> int" where
  "sql_count s = int (length (users (database s)))"

text \<open>\<^verbatim>\<open>DELETE FROM users\<close>: the rows go, the counter stays.\<close>

definition sql_delete_all :: "process \<Rightarrow> exn + process" where
  "sql_delete_all s =
     (if leaked_lock s then Inl (OperationalError locked_message)
      else Inr (s\<lparr>database :=
                     \<lparr>users = [], sqlite_sequence = sqlite_sequence (database s)\<rparr>\<rparr>))"

section \<open>Results and their messages\<close>

text \<open>Python's \<^verbatim>\<open>str\<close> of an integer, as the f-strings of the messages use it.\<close>

definition digit_char :: "nat \<Rightarrow> char" where
  "digit_char n = ''0123456789'' ! n"

function str_nat :: "nat \<Rightarrow> string" where
  "str_nat n = (if n < 10 then [digit_char n] else str_nat (n div 10) @ [digit_char (n mod 10)])"
  by pat_completeness auto
termination
  by (relation "measure (\<lambda>n. n)") auto

declare str_nat.simps [simp del]

definition str_int :: "int \<Rightarrow> string" where
  "str_int i = (if i < 0 then CHR ''-'' # str_nat (nat (- i)) else str_nat (nat i))"

text \<open>The value of the \<^verbatim>\<open>"status"\<close> key of a returned dictionary.\<close>

datatype status = Success | Error | Not_Found | Skipped

text \<open>The dictionaries the tools return, one constructor for each shape:
  \<^verbatim>\<open>{"status": "Success", "user": u}\<close>,
  \<^verbatim>\<open>{"status": "Success", "updated_user": u}\<close>,
  \<^verbatim>\<open>{"status": "Success", "message": m}\<close>,
  \<^verbatim>\<open>{"status": "Success", "message": m, "deleted_count": n}\<close>,
  \<^verbatim>\<open>{"status": "Success", "message": m, "created_users": us, "created_count": n}\<close>,
  \<^verbatim>\<open>{"status": "Skipped", "message": m, "existing_count": n}\<close>,
  \<^verbatim>\<open>{"status": "Error", "message": m}\<close> and
  \<^verbatim>\<open>{"status": "Not Found", "message": m}\<close>.\<close>

datatype result =
    Success_user user
  | Success_updated_user user
  | Success_message string
  | Success_deleted string int
  | Success_created string "user list" int
  | Skipped_existing string int
  | Error_message string
  | Not_Found_message string

fun status_of :: "result \<Rightarrow> status" where
  "status_of (Success_user u) = Success"
| "status_of (Success_updated_user u) = Success"
| "status_of (Success_message m) = Success"
| "status_of (Success_deleted m n) = Success"
| "status_of (Success_created m us n) = Success"
| "status_of (Skipped_existing m n) = Skipped"
| "status_of (Error_message m) = Error"
| "status_of (Not_Found_message m) = Not_Found"

definition email_exists_message :: "string \<Rightarrow> string" where
  "email_exists_message email =
     ''A user with the email '' @ [CHR 0x27] @ email @ [CHR 0x27] @ '' already exists.''"

definition no_field_message :: string where
  "no_field_message = ''At least one field (name or email) must be provided for update.''"

definition read_not_found_message :: "int \<Rightarrow> string" where
  "read_not_found_message user_id = ''User with ID '' @ str_int user_id @ '' was not found.''"

definition update_not_found_message :: "int \<Rightarrow> string" where
  "update_not_found_message user_id =
     ''User with ID '' @ str_int user_id @ '' not found, so nothing was updated.''"

definition delete_success_message :: "int \<Rightarrow> string" where
  "delete_success_message user_id =
     ''User with ID '' @ str_int user_id @ '' was deleted successfully.''"

definition delete_not_found_message :: "int \<Rightarrow> string" where
  "delete_not_found_message user_id =
     ''User with ID '' @ str_int user_id @ '' not found, so nothing was deleted.''"

definition delete_all_message :: "int \<Rightarrow> string" where
  "delete_all_message user_count =
     ''All '' @ str_int user_count @ '' users have been deleted from the database.''"

definition skipped_message :: "int \<Rightarrow> string" where
  "skipped_message n =
     ''Database already contains '' @ str_int n @ '' users. No sample data added.''"

definition populated_message :: "int \<Rightarrow> string" where
  "populated_message n = ''Database populated with '' @ str_int n @ '' sample users.''"

section \<open>The tools\<close>

text \<open>Each tool takes the process and returns it with its outcome: the dictionary it
  answers, or for a tool without a handler the exception it lets through
  (\<open>Inl\<close>). A statement that raises is never committed, so the database file is then
  the one before. The handler of \<^verbatim>\<open>IntegrityError\<close> returns without closing the
  connection, which leaves the write lock held.\<close>

definition create_user :: "string \<Rightarrow> string \<Rightarrow> process \<Rightarrow> process \<times> result" where
  "create_user name email s =
     (case sql_insert name email s of
        Inr (s', user_id) \<Rightarrow>
          (s', Success_user \<lparr>uid = user_id, uname = name, uemail = email\<rparr>)
      | Inl IntegrityError \<Rightarrow>
          (s\<lparr>leaked_lock := True\<rparr>, Error_message (email_exists_message email))
      | Inl e \<Rightarrow> (s, Error_message (str_exn e)))"

definition read_user :: "int \<Rightarrow> process \<Rightarrow> exn + result" where
  "read_user user_id s =
     (case sql_select_by_id user_id s of
        Inl e \<Rightarrow> Inl e
      | Inr (Some u) \<Rightarrow> Inr (Success_user u)
      | Inr None \<Rightarrow> Inr (Not_Found_message (read_not_found_message user_id)))"

text \<open>\<^verbatim>\<open>update_user\<close> calls \<^verbatim>\<open>read_user\<close> before its \<^verbatim>\<open>try\<close>, so an exception of
  the read goes through. \<^verbatim>\<open>read_user\<close> answers a found user or \<^verbatim>\<open>Not Found\<close>, so the
  test of the status and the lookup of the \<^verbatim>\<open>"user"\<close> key are one case distinction on its
  answer. The branch for \<^verbatim>\<open>rowcount\<close> zero is kept as the source has it.\<close>

definition update_user ::
  "int \<Rightarrow> string option \<Rightarrow> string option \<Rightarrow> process \<Rightarrow> process \<times> (exn + result)" where
  "update_user user_id name email s =
     (if name = None \<and> email = None then (s, Inr (Error_message no_field_message))
      else
        (case read_user user_id s of
           Inl e \<Rightarrow> (s, Inl e)
         | Inr (Success_user current_data) \<Rightarrow>
             (let new_name = (case name of Some n \<Rightarrow> n | None \<Rightarrow> uname current_data);
                  new_email = (case email of Some e \<Rightarrow> e | None \<Rightarrow> uemail current_data)
              in case sql_update new_name new_email user_id s of
                   Inr (s', rowcount) \<Rightarrow>
                     if rowcount > 0
                     then (s', Inr (Success_updated_user
                                 \<lparr>uid = user_id, uname = new_name, uemail = new_email\<rparr>))
                     else (s', Inr (Not_Found_message (update_not_found_message user_id)))
                 | Inl IntegrityError \<Rightarrow>
                     (s\<lparr>leaked_lock := True\<rparr>,
                      Inr (Error_message (email_exists_message new_email)))
                 | Inl e \<Rightarrow> (s, Inr (Error_message (str_exn e))))
         | Inr current_user \<Rightarrow> (s, Inr current_user)))"

definition delete_user :: "int \<Rightarrow> process \<Rightarrow> process \<times> (exn + result)" where
  "delete_user user_id s =
     (case sql_delete user_id s of
        Inl e \<Rightarrow> (s, Inl e)
      | Inr (s', rowcount) \<Rightarrow>
          if rowcount > 0 then (s', Inr (Success_message (delete_success_message user_id)))
          else (s', Inr (Not_Found_message (delete_not_found_message user_id))))"

definition list_users :: "process \<Rightarrow> user list" where
  "list_users s = sql_select_all s"

definition delete_all_users :: "process \<Rightarrow> process \<times> (exn + result)" where
  "delete_all_users s =
     (let user_count = sql_count s
      in case sql_delete_all s of
           Inl e \<Rightarrow> (s, Inl e)
         | Inr s' \<Rightarrow> (s', Inr (Success_deleted (delete_all_message user_count) user_count)))"

definition sample_users :: "(string \<times> string) list" where
  "sample_users =
     [(''Alice Smith'', ''alice@example.com''),
      (''Bob Johnson'', ''bob@example.com''),
      (''Charlie Lee'', ''charlie@example.com''),
      (''Dana White'', ''dana@example.com''),
      (''Eve Black'', ''eve@example.com'')]"

text \<open>The loop of \<^verbatim>\<open>populate_database\<close> over the samples, with the list
  \<^verbatim>\<open>created_users\<close> it appends to.\<close>

fun create_samples ::
  "(string \<times> string) list \<Rightarrow> process \<Rightarrow> user list \<Rightarrow> process \<times> user list" where
  "create_samples [] s created_users = (s, created_users)"
| "create_samples ((name, email) # rest) s created_users =
     (case create_user name email s of
        (s', Success_user u) \<Rightarrow> create_samples rest s' (created_users @ [u])
      | (s', _) \<Rightarrow> create_samples rest s' created_users)"

definition populate_database :: "process \<Rightarrow> process \<times> result" where
  "populate_database s =
     (let existing_users = list_users s
      in if existing_users \<noteq> []
         then (s, Skipped_existing (skipped_message (int (length existing_users)))
                    (int (length existing_users)))
         else case create_samples sample_users s [] of
                (s', created_users) \<Rightarrow>
                  (s', Success_created (populated_message (int (length created_users)))
                         created_users (int (length created_users))))"

section \<open>Sequences of tool calls\<close>

text \<open>What can happen to the process: a call of one of the seven tools, or a run of the
  Python collector, which reclaims the connections left open and so frees the write lock. The
  collector runs at moments the tools do not control.\<close>

datatype operation =
    Create string string
  | Read int
  | Update int "string option" "string option"
  | Delete int
  | ListAll
  | DeleteAll
  | SeedIfEmpty
  | Collect

fun exec :: "operation \<Rightarrow> process \<Rightarrow> process" where
  "exec (Create name email) s = fst (create_user name email s)"
| "exec (Read user_id) s = s"
| "exec (Update user_id name email) s = fst (update_user user_id name email s)"
| "exec (Delete user_id) s = fst (delete_user user_id s)"
| "exec ListAll s = s"
| "exec DeleteAll s = fst (delete_all_users s)"
| "exec SeedIfEmpty s = fst (populate_database s)"
| "exec Collect s = s\<lparr>leaked_lock := False\<rparr>"

definition run :: "operation list \<Rightarrow> process" where
  "run ops = fold exec ops fresh_process"

text \<open>What the schema keeps true of every table: the emails are pairwise different
  (\<^verbatim>\<open>UNIQUE\<close>) and the rows stand in strictly ascending order of their key.\<close>

definition table_ok :: "db \<Rightarrow> bool" where
  "table_ok d \<longleftrightarrow> distinct (map uemail (users d)) \<and> sorted_wrt (<) (map uid (users d))"

text \<open>A write is rejected only on a table that has rows, and while the lock that the
  rejection leaves is held no row can be deleted: a held lock comes with a table that is not
  empty.\<close>

definition leak_ok :: "process \<Rightarrow> bool" where
  "leak_ok s \<longleftrightarrow> (if leaked_lock s then users (database s) \<noteq> [] else True)"

text \<open>The outcome of a tool is a failure when it is an exception or a dictionary whose
  status is \<^verbatim>\<open>Error\<close> or \<^verbatim>\<open>Not Found\<close>.\<close>

fun failed :: "exn + result \<Rightarrow> bool" where
  "failed (Inl e) = True"
| "failed (Inr r) = (status_of r = Error \<or> status_of r = Not_Found)"

section \<open>What every tool keeps true\<close>

lemma max_rowid_ge: "u \<in> set us \<Longrightarrow> uid u \<le> max_rowid us"
  by (induction us) auto

lemma sql_insert_ok:
  assumes "sql_insert name email s = Inr (s', i)"
  shows "\<not> leaked_lock s" and "email \<notin> set (map uemail (users (database s)))"
    and "i = max (sqlite_sequence (database s)) (max_rowid (users (database s))) + 1"
    and "s' = s\<lparr>database := \<lparr>users = users (database s) @ [\<lparr>uid = i, uname = name, uemail = email\<rparr>],
                               sqlite_sequence = i\<rparr>\<rparr>"
  using assms by (auto simp: sql_insert_def Let_def split: if_splits)

lemma table_ok_insert:
  assumes "table_ok (database s)" and "sql_insert name email s = Inr (s', i)"
  shows "table_ok (database s')"
proof -
  note ok = sql_insert_ok [OF assms(2)]
  have "\<forall>u \<in> set (users (database s)). uid u < i"
    using ok(3) max_rowid_ge by fastforce
  with assms(1) ok(2,4) show ?thesis
    by (auto simp: table_ok_def sorted_wrt_append)
qed

lemma table_ok_create:
  "table_ok (database s) \<Longrightarrow> table_ok (database (fst (create_user name email s)))"
  by (auto simp: create_user_def split: sum.splits exn.splits dest: table_ok_insert)

lemma update_rows_distinct:
  fixes us :: "user list"
  assumes "sorted_wrt (<) (map uid us)" and "distinct (map uemail us)"
    and "\<not> list_ex (\<lambda>u. uid u \<noteq> i \<and> uemail u = e) us"
  shows "distinct (map uemail
           (map (\<lambda>u. if uid u = i then u\<lparr>uname := n, uemail := e\<rparr> else u) us))"
proof -
  define f :: "user \<Rightarrow> user" where "f = (\<lambda>u. if uid u = i then u\<lparr>uname := n, uemail := e\<rparr> else u)"
  from assms have "distinct (map uemail (map f us))"
  proof (induction us)
    case Nil
    then show ?case by simp
  next
    case (Cons u us)
    from Cons have IH: "distinct (map uemail (map f us))"
      by (simp add: list_ex_iff)
    show ?case
    proof (cases "uid u = i")
      case True
      with Cons.prems(1) have others: "\<forall>v \<in> set us. uid v \<noteq> i" by auto
      then have "\<forall>v \<in> set us. uemail (f v) \<noteq> e"
        using Cons.prems(3) by (auto simp: list_ex_iff f_def)
      with True IH show ?thesis by (auto simp: f_def)
    next
      case False
      with Cons.prems(3) have "uemail u \<noteq> e" by (simp add: list_ex_iff)
      moreover from Cons.prems(2) have "uemail u \<notin> uemail ` set us" by simp
      then have "\<forall>v \<in> set us. uemail v \<noteq> uemail u" by (metis imageI)
      ultimately have "\<forall>v \<in> set us. uemail (f v) \<noteq> uemail u"
        by (simp add: f_def)
      with False IH show ?thesis by (auto simp: f_def)
    qed
  qed
  then show ?thesis by (simp only: f_def)
qed

lemma update_rows_uid:
  fixes us :: "user list"
  shows "map uid (map (\<lambda>u. if uid u = i then u\<lparr>uname := n, uemail := e\<rparr> else u) us) = map uid us"
  by (induction us) auto

lemma table_ok_sql_update:
  "table_ok (database s) \<Longrightarrow> sql_update n e i s = Inr (s', c) \<Longrightarrow> table_ok (database s')"
  unfolding table_ok_def sql_update_def
  by (auto split: if_splits simp: update_rows_uid intro: update_rows_distinct simp del: map_map)

lemma read_user_shape:
  "read_user i s = Inl OverflowError
   \<or> read_user i s = Inr (Not_Found_message (read_not_found_message i))
   \<or> (\<exists>u. read_user i s = Inr (Success_user u))"
  by (simp add: read_user_def sql_select_by_id_def split: option.splits)

lemma table_ok_update:
  "table_ok (database s) \<Longrightarrow> table_ok (database (fst (update_user i n e s)))"
  using read_user_shape [of i s]
  by (auto simp: update_user_def Let_def split: sum.splits exn.splits)
     (blast intro: table_ok_sql_update)+

lemma table_ok_delete:
  "table_ok (database s) \<Longrightarrow> table_ok (database (fst (delete_user i s)))"
  by (auto simp: delete_user_def sql_delete_def table_ok_def distinct_map_filter
        sorted_wrt_map sorted_wrt_filter)

lemma table_ok_delete_all:
  "table_ok (database s) \<Longrightarrow> table_ok (database (fst (delete_all_users s)))"
  by (simp add: delete_all_users_def sql_delete_all_def table_ok_def Let_def)

lemma table_ok_create_samples:
  "table_ok (database s) \<Longrightarrow> table_ok (database (fst (create_samples xs s acc)))"
proof (induction xs arbitrary: s acc)
  case Nil
  then show ?case by simp
next
  case (Cons x xs)
  obtain name email where x: "x = (name, email)" by (cases x)
  obtain s' r where c: "create_user name email s = (s', r)" by (cases "create_user name email s")
  with Cons.prems table_ok_create [of s name email] have "table_ok (database s')" by simp
  with Cons.IH x c show ?case by (cases r) auto
qed

lemma table_ok_populate:
  "table_ok (database s) \<Longrightarrow> table_ok (database (fst (populate_database s)))"
  using table_ok_create_samples [of s sample_users "[]"]
  by (auto simp: populate_database_def Let_def split: prod.splits)

lemma table_ok_exec: "table_ok (database s) \<Longrightarrow> table_ok (database (exec op s))"
  by (cases op) (simp_all add: table_ok_create table_ok_update table_ok_delete
        table_ok_delete_all table_ok_populate)

lemma table_ok_fold: "table_ok (database s) \<Longrightarrow> table_ok (database (fold exec ops s))"
  by (induction ops arbitrary: s) (simp_all add: table_ok_exec)

lemma table_ok_run: "table_ok (database (run ops))"
  unfolding run_def by (rule table_ok_fold) (simp add: table_ok_def fresh_process_def empty_db_def)

lemma leak_ok_create: "leak_ok s \<Longrightarrow> leak_ok (fst (create_user name email s))"
  by (auto simp: create_user_def sql_insert_def leak_ok_def Let_def split: if_splits)

lemma leak_ok_update: "leak_ok s \<Longrightarrow> leak_ok (fst (update_user i n e s))"
  using read_user_shape [of i s]
  by (auto simp: update_user_def sql_update_def leak_ok_def Let_def list_ex_iff split: if_splits)

lemma leak_ok_delete: "leak_ok s \<Longrightarrow> leak_ok (fst (delete_user i s))"
  by (auto simp: delete_user_def sql_delete_def leak_ok_def split: if_splits)

lemma leak_ok_delete_all: "leak_ok s \<Longrightarrow> leak_ok (fst (delete_all_users s))"
  by (auto simp: delete_all_users_def sql_delete_all_def leak_ok_def Let_def split: if_splits)

lemma leak_ok_create_samples:
  "leak_ok s \<Longrightarrow> leak_ok (fst (create_samples xs s acc))"
proof (induction xs arbitrary: s acc)
  case Nil
  then show ?case by simp
next
  case (Cons x xs)
  obtain name email where x: "x = (name, email)" by (cases x)
  obtain s' r where c: "create_user name email s = (s', r)" by (cases "create_user name email s")
  with Cons.prems leak_ok_create [of s name email] have "leak_ok s'" by simp
  with Cons.IH x c show ?case by (cases r) auto
qed

lemma leak_ok_populate: "leak_ok s \<Longrightarrow> leak_ok (fst (populate_database s))"
  using leak_ok_create_samples [of s sample_users "[]"]
  by (auto simp: populate_database_def Let_def split: prod.splits)

lemma leak_ok_exec: "leak_ok s \<Longrightarrow> leak_ok (exec op s)"
  by (cases op) (simp_all add: leak_ok_create leak_ok_update leak_ok_delete
        leak_ok_delete_all leak_ok_populate, simp add: leak_ok_def)

lemma leak_ok_fold: "leak_ok s \<Longrightarrow> leak_ok (fold exec ops s)"
  by (induction ops arbitrary: s) (simp_all add: leak_ok_exec)

lemma leak_ok_run: "leak_ok (run ops)"
  unfolding run_def by (rule leak_ok_fold) (simp add: leak_ok_def fresh_process_def)

section \<open>Facts about single statements\<close>

lemma one_row_with_email:
  fixes us :: "user list"
  shows "distinct (map uemail us) \<Longrightarrow> e \<in> set (map uemail us) \<Longrightarrow>
         length (filter (\<lambda>u. uemail u = e) us) = 1"
proof (induction us)
  case Nil
  then show ?case by simp
next
  case (Cons u us)
  show ?case
  proof (cases "uemail u = e")
    case True
    with Cons.prems(1) have "\<forall>v \<in> set us. uemail v \<noteq> e"
      by (metis distinct.simps(2) imageI list.simps(9) set_map)
    then have "filter (\<lambda>u. uemail u = e) us = []" by (simp add: filter_empty_conv)
    with True show ?thesis by simp
  next
    case False
    with Cons show ?thesis by auto
  qed
qed

lemma create_user_locked:
  "leaked_lock s \<Longrightarrow> create_user name email s = (s, Error_message locked_message)"
  by (simp add: create_user_def sql_insert_def)

lemma create_user_existing:
  "\<not> leaked_lock s \<Longrightarrow> email \<in> set (map uemail (users (database s))) \<Longrightarrow>
   create_user name email s =
     (s\<lparr>leaked_lock := True\<rparr>, Error_message (email_exists_message email))"
  by (simp add: create_user_def sql_insert_def)

lemma create_user_fresh:
  "\<not> leaked_lock s \<Longrightarrow> email \<notin> set (map uemail (users (database s))) \<Longrightarrow>
   create_user name email s =
     (s\<lparr>database :=
          \<lparr>users = users (database s)
               @ [\<lparr>uid = max (sqlite_sequence (database s)) (max_rowid (users (database s))) + 1,
                   uname = name, uemail = email\<rparr>],
           sqlite_sequence =
             max (sqlite_sequence (database s)) (max_rowid (users (database s))) + 1\<rparr>\<rparr>,
      Success_user \<lparr>uid = max (sqlite_sequence (database s)) (max_rowid (users (database s))) + 1,
                    uname = name, uemail = email\<rparr>)"
  by (simp add: create_user_def sql_insert_def Let_def)

lemma count_positive: "(0 < length (filter P xs)) = list_ex P xs"
  by (simp add: list_ex_iff filter_empty_conv)

lemma filter_keeps_all: "\<not> list_ex P xs \<Longrightarrow> filter (\<lambda>x. \<not> P x) xs = xs"
  by (induction xs) auto

lemma filter_empty_ex: "(filter P xs = []) = (\<not> list_ex P xs)"
  by (simp add: list_ex_iff filter_empty_conv)

lemma sql_update_stored:
  "sql_update name email user_id s = Inr (s', c) \<Longrightarrow> \<not> 0 < c \<Longrightarrow> database s' = database s"
  by (auto simp: sql_update_def filter_empty_ex split: if_splits)

lemma read_user_found:
  "read_user user_id s = Inr (Success_user u) \<longleftrightarrow>
   in_int64 user_id \<and> find (\<lambda>u. uid u = user_id) (users (database s)) = Some u"
  by (simp add: read_user_def sql_select_by_id_def split: option.splits)

lemma find_some_ex: "find P xs = Some x \<Longrightarrow> list_ex P xs \<and> P x \<and> x \<in> set xs"
  by (auto simp: find_Some_iff list_ex_iff)

lemma create_samples_step:
  assumes "\<not> lk" and "email \<notin> set (map uemail us)" and "max_rowid us \<le> q"
  shows "create_samples ((name, email) # rest)
           \<lparr>database = \<lparr>users = us, sqlite_sequence = q\<rparr>, leaked_lock = lk\<rparr> created_users =
     create_samples rest
       \<lparr>database = \<lparr>users = us @ [\<lparr>uid = q + 1, uname = name, uemail = email\<rparr>],
                     sqlite_sequence = q + 1\<rparr>, leaked_lock = lk\<rparr>
       (created_users @ [\<lparr>uid = q + 1, uname = name, uemail = email\<rparr>])"
  using assms by (simp add: create_user_fresh max_absorb1)

lemma create_samples_first:
  "create_samples ((name, email) # rest)
       \<lparr>database = \<lparr>users = [], sqlite_sequence = q\<rparr>, leaked_lock = False\<rparr> created_users =
     create_samples rest
       \<lparr>database = \<lparr>users = [\<lparr>uid = max q 0 + 1, uname = name, uemail = email\<rparr>],
                     sqlite_sequence = max q 0 + 1\<rparr>, leaked_lock = False\<rparr>
       (created_users @ [\<lparr>uid = max q 0 + 1, uname = name, uemail = email\<rparr>])"
  by (simp add: create_user_fresh)

lemma create_samples_on_fresh:
  "create_samples sample_users
       \<lparr>database = \<lparr>users = [], sqlite_sequence = q\<rparr>, leaked_lock = False\<rparr> [] =
     (\<lparr>database = \<lparr>users =
         [\<lparr>uid = max q 0 + 1, uname = ''Alice Smith'', uemail = ''alice@example.com''\<rparr>,
          \<lparr>uid = max q 0 + 2, uname = ''Bob Johnson'', uemail = ''bob@example.com''\<rparr>,
          \<lparr>uid = max q 0 + 3, uname = ''Charlie Lee'', uemail = ''charlie@example.com''\<rparr>,
          \<lparr>uid = max q 0 + 4, uname = ''Dana White'', uemail = ''dana@example.com''\<rparr>,
          \<lparr>uid = max q 0 + 5, uname = ''Eve Black'', uemail = ''eve@example.com''\<rparr>],
        sqlite_sequence = max q 0 + 5\<rparr>, leaked_lock = False\<rparr>,
      [\<lparr>uid = max q 0 + 1, uname = ''Alice Smith'', uemail = ''alice@example.com''\<rparr>,
       \<lparr>uid = max q 0 + 2, uname = ''Bob Johnson'', uemail = ''bob@example.com''\<rparr>,
       \<lparr>uid = max q 0 + 3, uname = ''Charlie Lee'', uemail = ''charlie@example.com''\<rparr>,
       \<lparr>uid = max q 0 + 4, uname = ''Dana White'', uemail = ''dana@example.com''\<rparr>,
       \<lparr>uid = max q 0 + 5, uname = ''Eve Black'', uemail = ''eve@example.com''\<rparr>])"
proof -
  define r where "r = max q 0"
  have r0: "0 \<le> r" by (simp add: r_def)
  have "create_samples sample_users
          \<lparr>database = \<lparr>users = [], sqlite_sequence = q\<rparr>, leaked_lock = False\<rparr> [] =
      create_samples (tl sample_users)
        \<lparr>database = \<lparr>users = [\<lparr>uid = r + 1, uname = ''Alice Smith'', uemail = ''alice@example.com''\<rparr>],
          sqlite_sequence = r + 1\<rparr>, leaked_lock = False\<rparr>
        [\<lparr>uid = r + 1, uname = ''Alice Smith'', uemail = ''alice@example.com''\<rparr>]"
    unfolding sample_users_def r_def
    by (simp add: create_samples_first del: create_samples.simps(2))
  also have "\<dots> =
     (\<lparr>database = \<lparr>users =
         [\<lparr>uid = r + 1, uname = ''Alice Smith'', uemail = ''alice@example.com''\<rparr>,
          \<lparr>uid = r + 2, uname = ''Bob Johnson'', uemail = ''bob@example.com''\<rparr>,
          \<lparr>uid = r + 3, uname = ''Charlie Lee'', uemail = ''charlie@example.com''\<rparr>,
          \<lparr>uid = r + 4, uname = ''Dana White'', uemail = ''dana@example.com''\<rparr>,
          \<lparr>uid = r + 5, uname = ''Eve Black'', uemail = ''eve@example.com''\<rparr>],
        sqlite_sequence = r + 5\<rparr>, leaked_lock = False\<rparr>,
      [\<lparr>uid = r + 1, uname = ''Alice Smith'', uemail = ''alice@example.com''\<rparr>,
       \<lparr>uid = r + 2, uname = ''Bob Johnson'', uemail = ''bob@example.com''\<rparr>,
       \<lparr>uid = r + 3, uname = ''Charlie Lee'', uemail = ''charlie@example.com''\<rparr>,
       \<lparr>uid = r + 4, uname = ''Dana White'', uemail = ''dana@example.com''\<rparr>,
       \<lparr>uid = r + 5, uname = ''Eve Black'', uemail = ''eve@example.com''\<rparr>])"
    unfolding sample_users_def using r0
    by (simp add: create_samples_step del: create_samples.simps(2))
  finally show ?thesis unfolding r_def .
qed

lemma find_map_same:
  "find P xs = Some x \<Longrightarrow> (\<And>y. P (f y) = P y) \<Longrightarrow> find P (map f xs) = Some (f x)"
  by (induction xs) (auto split: if_splits)

lemma sql_update_writes:
  assumes "in_int64 user_id" and "\<not> leaked_lock s"
    and "list_ex (\<lambda>u. uid u = user_id) (users (database s))"
    and "\<not> list_ex (\<lambda>u. uid u \<noteq> user_id \<and> uemail u = email) (users (database s))"
  shows "\<exists>c. 0 < c \<and> sql_update name email user_id s =
           Inr (s\<lparr>database :=
                    \<lparr>users = map (\<lambda>u. if uid u = user_id
                                       then u\<lparr>uname := name, uemail := email\<rparr> else u)
                                  (users (database s)),
                     sqlite_sequence = sqlite_sequence (database s)\<rparr>\<rparr>, c)"
  using assms by (simp add: sql_update_def filter_empty_ex)

section \<open>The tools while no write lock is held\<close>

text \<open>As long as no connection left open holds the write lock and the id is one that can be
  bound, a second \<^verbatim>\<open>create_user\<close> with the email of a first, successful one is answered
  with the already-exists error and the table has one row with that email;
  \<^verbatim>\<open>delete_all_users\<close> reports the number of rows, empties the table and reports 0 when
  called again; \<^verbatim>\<open>read_user\<close> after \<^verbatim>\<open>delete_user\<close> answers \<^verbatim>\<open>Not Found\<close>, and
  \<^verbatim>\<open>delete_user\<close> of an id without a row answers \<^verbatim>\<open>Not Found\<close>.\<close>

lemma second_create_after_success:
  assumes "\<not> leaked_lock s" and "email \<notin> set (map uemail (users (database s)))"
  shows "create_user name2 email (fst (create_user name1 email s)) =
           ((fst (create_user name1 email s))\<lparr>leaked_lock := True\<rparr>,
            Error_message (email_exists_message email))
       \<and> (distinct (map uemail (users (database s))) \<longrightarrow>
            length (filter (\<lambda>u. uemail u = email)
                      (users (database (fst (create_user name1 email s))))) = 1)"
proof -
  let ?s1 = "fst (create_user name1 email s)"
  from assms have in1: "email \<in> set (map uemail (users (database ?s1)))"
    and unlocked: "\<not> leaked_lock ?s1"
    by (simp_all add: create_user_fresh)
  have "length (filter (\<lambda>u. uemail u = email) (users (database ?s1))) = 1"
    if "distinct (map uemail (users (database s)))"
  proof -
    from assms that have "distinct (map uemail (users (database ?s1)))"
      by (simp add: create_user_fresh)
    with in1 show ?thesis by (rule one_row_with_email [rotated])
  qed
  with in1 unlocked show ?thesis
    by (simp add: create_user_existing del: set_map)
qed

lemma delete_all_counts_unlocked:
  assumes "\<not> leaked_lock s"
  shows "snd (delete_all_users s) =
     Inr (Success_deleted (delete_all_message (int (length (users (database s)))))
            (int (length (users (database s)))))
   \<and> list_users (fst (delete_all_users s)) = []
   \<and> snd (delete_all_users (fst (delete_all_users s))) =
       Inr (Success_deleted (delete_all_message 0) 0)"
  using assms
  by (simp add: delete_all_users_def sql_count_def sql_delete_all_def list_users_def
        sql_select_all_def Let_def)

lemma delete_then_read_unlocked:
  assumes "in_int64 user_id" and "\<not> leaked_lock s"
  shows "read_user user_id (fst (delete_user user_id s)) =
           Inr (Not_Found_message (read_not_found_message user_id))"
    and "\<not> list_ex (\<lambda>u. uid u = user_id) (users (database s)) \<Longrightarrow>
           delete_user user_id s = (s, Inr (Not_Found_message (delete_not_found_message user_id)))"
proof -
  have "find (\<lambda>u. uid u = user_id) (filter (\<lambda>u. uid u \<noteq> user_id) (users (database s))) = None"
    by (simp add: find_None_iff)
  with assms show "read_user user_id (fst (delete_user user_id s)) =
        Inr (Not_Found_message (read_not_found_message user_id))"
    by (simp add: delete_user_def sql_delete_def read_user_def sql_select_by_id_def)
next
  assume none: "\<not> list_ex (\<lambda>u. uid u = user_id) (users (database s))"
  then have "filter (\<lambda>u. uid u \<noteq> user_id) (users (database s)) = users (database s)"
    by (rule filter_keeps_all)
  moreover from none have "length (filter (\<lambda>u. uid u = user_id) (users (database s))) = 0"
    using count_positive [of "\<lambda>u. uid u = user_id" "users (database s)"] by simp
  ultimately show "delete_user user_id s =
      (s, Inr (Not_Found_message (delete_not_found_message user_id)))"
    using assms by (simp add: delete_user_def sql_delete_def)
qed

section \<open>Two states that call sequences reach\<close>

lemma run_alice:
  "run [Create ''Alice Smith'' ''alice@example.com''] =
     \<lparr>database = \<lparr>users = [\<lparr>uid = 1, uname = ''Alice Smith'', uemail = ''alice@example.com''\<rparr>],
                   sqlite_sequence = 1\<rparr>, leaked_lock = False\<rparr>"
  by (simp add: run_def fresh_process_def empty_db_def create_user_def sql_insert_def)

lemma run_alice_rejected:
  "run [Create ''Alice Smith'' ''alice@example.com'', Create ''Bob'' ''alice@example.com''] =
     \<lparr>database = \<lparr>users = [\<lparr>uid = 1, uname = ''Alice Smith'', uemail = ''alice@example.com''\<rparr>],
                   sqlite_sequence = 1\<rparr>, leaked_lock = True\<rparr>"
  by (simp add: run_def fresh_process_def empty_db_def create_user_def sql_insert_def)

section \<open>Properties of the tools\<close>

text \<open>C1. On a fresh table (no rows, hence no write lock left behind, and the counter below
  the largest rowid), \<^verbatim>\<open>create_user name email\<close> succeeds for every name and email: it
  answers the user with that name, that email and the generated id (one more than the
  counter, so 1 on a new database), the table then holds exactly that row, and
  \<^verbatim>\<open>read_user\<close> of the generated id answers the same user.\<close>

theorem create_then_read:
  assumes "users (database s) = []" and "leak_ok s"
    and "sqlite_sequence (database s) < 2 ^ 63 - 1"
  shows "create_user name email s =
           (s\<lparr>database :=
                \<lparr>users = [\<lparr>uid = max (sqlite_sequence (database s)) 0 + 1,
                            uname = name, uemail = email\<rparr>],
                 sqlite_sequence = max (sqlite_sequence (database s)) 0 + 1\<rparr>\<rparr>,
            Success_user \<lparr>uid = max (sqlite_sequence (database s)) 0 + 1,
                          uname = name, uemail = email\<rparr>)
       \<and> read_user (max (sqlite_sequence (database s)) 0 + 1)
             (fst (create_user name email s)) =
           Inr (Success_user \<lparr>uid = max (sqlite_sequence (database s)) 0 + 1,
                               uname = name, uemail = email\<rparr>)"
proof -
  from assms(1,2) have unlocked: "\<not> leaked_lock s" by (auto simp: leak_ok_def)
  from assms(3) have "in_int64 (max (sqlite_sequence (database s)) 0 + 1)"
    by (simp add: in_int64_def max_def)
  with unlocked assms(1) show ?thesis
    by (simp add: create_user_fresh read_user_def sql_select_by_id_def)
qed

theorem create_then_read_witness:
  "users (database fresh_process) = [] \<and> leak_ok fresh_process
   \<and> sqlite_sequence (database fresh_process) < 2 ^ 63 - 1
   \<and> create_user ''Alice Smith'' ''alice@example.com'' fresh_process =
       (\<lparr>database =
           \<lparr>users = [\<lparr>uid = 1, uname = ''Alice Smith'', uemail = ''alice@example.com''\<rparr>],
            sqlite_sequence = 1\<rparr>,
         leaked_lock = False\<rparr>,
        Success_user \<lparr>uid = 1, uname = ''Alice Smith'', uemail = ''alice@example.com''\<rparr>)
   \<and> read_user 1 (fst (create_user ''Alice Smith'' ''alice@example.com'' fresh_process)) =
       Inr (Success_user \<lparr>uid = 1, uname = ''Alice Smith'', uemail = ''alice@example.com''\<rparr>)"
proof -
  have h1: "users (database fresh_process) = []"
    and h2: "leak_ok fresh_process"
    and h3: "sqlite_sequence (database fresh_process) < 2 ^ 63 - 1"
    by (simp_all add: fresh_process_def empty_db_def leak_ok_def)
  from create_then_read [OF h1 h2 h3, of "''Alice Smith''" "''alice@example.com''"] h1 h2 h3
  show ?thesis by (auto simp: fresh_process_def empty_db_def)
qed

text \<open>C5. For every id and every state of the process, \<^verbatim>\<open>update_user\<close> with neither a
  name nor an email answers the error that at least one field must be provided, and the
  process with its database (hence the addressed row) is the one before the call.\<close>

theorem update_without_fields:
  "update_user user_id None None s = (s, Inr (Error_message no_field_message))"
  by (simp add: update_user_def)

text \<open>C8. In every state reached from the new database by any sequence of tool calls and
  collector runs, \<^verbatim>\<open>list_users\<close> answers all rows of the table, in strictly ascending
  order of id.\<close>

theorem list_users_ascending:
  "list_users (run ops) = users (database (run ops))
   \<and> sorted_wrt (<) (map uid (list_users (run ops)))"
  using table_ok_run [of ops] by (simp add: table_ok_def list_users_def sql_select_all_def)

text \<open>C10. Whenever \<^verbatim>\<open>create_user\<close>, \<^verbatim>\<open>update_user\<close> or \<^verbatim>\<open>delete_user\<close> answers a
  dictionary whose status is \<^verbatim>\<open>Error\<close> or \<^verbatim>\<open>Not Found\<close> (or, for the latter two,
  lets an exception through), the rows and the counter of the database after the call are
  exactly those before it. (\<^verbatim>\<open>read_user\<close> only selects.)\<close>

theorem errors_leave_database:
  "(status_of (snd (create_user name email s)) = Error
      \<or> status_of (snd (create_user name email s)) = Not_Found
    \<longrightarrow> database (fst (create_user name email s)) = database s)
   \<and> (failed (snd (update_user user_id new_name new_email s))
    \<longrightarrow> database (fst (update_user user_id new_name new_email s)) = database s)
   \<and> (failed (snd (delete_user user_id s))
    \<longrightarrow> database (fst (delete_user user_id s)) = database s)"
proof (intro conjI impI)
  assume "status_of (snd (create_user name email s)) = Error
      \<or> status_of (snd (create_user name email s)) = Not_Found"
  then show "database (fst (create_user name email s)) = database s"
    by (auto simp: create_user_def split: sum.splits exn.splits)
next
  assume a: "failed (snd (update_user user_id new_name new_email s))"
  from read_user_shape [of user_id s]
  consider "read_user user_id s = Inl OverflowError"
    | "read_user user_id s = Inr (Not_Found_message (read_not_found_message user_id))"
    | u where "read_user user_id s = Inr (Success_user u)"
    by blast
  then show "database (fst (update_user user_id new_name new_email s)) = database s"
  proof cases
    case 1
    then show ?thesis by (simp add: update_user_def)
  next
    case 2
    then show ?thesis by (simp add: update_user_def)
  next
    case 3
    with a show ?thesis
      by (auto simp: update_user_def Let_def split: sum.splits exn.splits if_splits
            dest: sql_update_stored)
  qed
next
  assume a: "failed (snd (delete_user user_id s))"
  show "database (fst (delete_user user_id s)) = database s"
  proof (cases "sql_delete user_id s")
    case (Inl e)
    then show ?thesis by (simp add: delete_user_def)
  next
    case (Inr p)
    then have "\<not> list_ex (\<lambda>u. uid u = user_id) (users (database s))"
      using a by (auto simp: delete_user_def sql_delete_def filter_empty_ex split: if_splits)
    then have "filter (\<lambda>u. uid u \<noteq> user_id) (users (database s)) = users (database s)"
      by (rule filter_keeps_all)
    with Inr show ?thesis
      by (auto simp: delete_user_def sql_delete_def split: if_splits)
  qed
qed

theorem errors_leave_database_witness:
  "status_of (snd (create_user ''Bob'' ''alice@example.com''
      \<lparr>database = \<lparr>users = [\<lparr>uid = 1, uname = ''Alice Smith'', uemail = ''alice@example.com''\<rparr>],
                    sqlite_sequence = 1\<rparr>, leaked_lock = False\<rparr>)) = Error
   \<and> database (fst (create_user ''Bob'' ''alice@example.com''
      \<lparr>database = \<lparr>users = [\<lparr>uid = 1, uname = ''Alice Smith'', uemail = ''alice@example.com''\<rparr>],
                    sqlite_sequence = 1\<rparr>, leaked_lock = False\<rparr>)) =
      \<lparr>users = [\<lparr>uid = 1, uname = ''Alice Smith'', uemail = ''alice@example.com''\<rparr>],
        sqlite_sequence = 1\<rparr>
   \<and> failed (snd (update_user 7 (Some ''Bob'') None
      \<lparr>database = \<lparr>users = [\<lparr>uid = 1, uname = ''Alice Smith'', uemail = ''alice@example.com''\<rparr>],
                    sqlite_sequence = 1\<rparr>, leaked_lock = False\<rparr>))
   \<and> database (fst (update_user 7 (Some ''Bob'') None
      \<lparr>database = \<lparr>users = [\<lparr>uid = 1, uname = ''Alice Smith'', uemail = ''alice@example.com''\<rparr>],
                    sqlite_sequence = 1\<rparr>, leaked_lock = False\<rparr>)) =
      \<lparr>users = [\<lparr>uid = 1, uname = ''Alice Smith'', uemail = ''alice@example.com''\<rparr>],
        sqlite_sequence = 1\<rparr>
   \<and> failed (snd (delete_user 7
      \<lparr>database = \<lparr>users = [\<lparr>uid = 1, uname = ''Alice Smith'', uemail = ''alice@example.com''\<rparr>],
                    sqlite_sequence = 1\<rparr>, leaked_lock = False\<rparr>))
   \<and> database (fst (delete_user 7
      \<lparr>database = \<lparr>users = [\<lparr>uid = 1, uname = ''Alice Smith'', uemail = ''alice@example.com''\<rparr>],
                    sqlite_sequence = 1\<rparr>, leaked_lock = False\<rparr>)) =
      \<lparr>users = [\<lparr>uid = 1, uname = ''Alice Smith'', uemail = ''alice@example.com''\<rparr>],
        sqlite_sequence = 1\<rparr>"
proof -
  let ?s = "\<lparr>database = \<lparr>users = [\<lparr>uid = 1, uname = ''Alice Smith'', uemail = ''alice@example.com''\<rparr>],
                          sqlite_sequence = 1\<rparr>, leaked_lock = False\<rparr>"
  have c: "status_of (snd (create_user ''Bob'' ''alice@example.com'' ?s)) = Error"
    by (simp add: create_user_def sql_insert_def)
  have u: "failed (snd (update_user 7 (Some ''Bob'') None ?s))"
    by (simp add: update_user_def read_user_def sql_select_by_id_def in_int64_def)
  have x: "failed (snd (delete_user 7 ?s))"
    by (simp add: delete_user_def sql_delete_def in_int64_def)
  from errors_leave_database [of "''Bob''" "''alice@example.com''" ?s 7 "Some ''Bob''" None] c u x
  have "database (fst (create_user ''Bob'' ''alice@example.com'' ?s)) = database ?s"
    and "database (fst (update_user 7 (Some ''Bob'') None ?s)) = database ?s"
    and "database (fst (delete_user 7 ?s)) = database ?s"
    by blast+
  with c u x show ?thesis by simp
qed

text \<open>C6. In every state in which a held write lock comes with a table that has rows (every
  state the tools reach is one): on a table without rows \<^verbatim>\<open>populate_database\<close> inserts
  exactly the 5 fixed sample users, with the next 5 ids, and reports success with the count
  5; on a table with rows it changes nothing and reports \<^verbatim>\<open>Skipped\<close> with the number of
  rows; so a call that follows a call is always skipped and leaves the table as it was.\<close>

theorem populate_database_seeds:
  assumes "leak_ok s"
  shows "(users (database s) = [] \<longrightarrow>
      populate_database s =
        (s\<lparr>database := \<lparr>users =
             [\<lparr>uid = max (sqlite_sequence (database s)) 0 + 1, uname = ''Alice Smith'', uemail = ''alice@example.com''\<rparr>,
              \<lparr>uid = max (sqlite_sequence (database s)) 0 + 2, uname = ''Bob Johnson'', uemail = ''bob@example.com''\<rparr>,
              \<lparr>uid = max (sqlite_sequence (database s)) 0 + 3, uname = ''Charlie Lee'', uemail = ''charlie@example.com''\<rparr>,
              \<lparr>uid = max (sqlite_sequence (database s)) 0 + 4, uname = ''Dana White'', uemail = ''dana@example.com''\<rparr>,
              \<lparr>uid = max (sqlite_sequence (database s)) 0 + 5, uname = ''Eve Black'', uemail = ''eve@example.com''\<rparr>],
            sqlite_sequence = max (sqlite_sequence (database s)) 0 + 5\<rparr>\<rparr>,
         Success_created (populated_message 5)
             [\<lparr>uid = max (sqlite_sequence (database s)) 0 + 1, uname = ''Alice Smith'', uemail = ''alice@example.com''\<rparr>,
              \<lparr>uid = max (sqlite_sequence (database s)) 0 + 2, uname = ''Bob Johnson'', uemail = ''bob@example.com''\<rparr>,
              \<lparr>uid = max (sqlite_sequence (database s)) 0 + 3, uname = ''Charlie Lee'', uemail = ''charlie@example.com''\<rparr>,
              \<lparr>uid = max (sqlite_sequence (database s)) 0 + 4, uname = ''Dana White'', uemail = ''dana@example.com''\<rparr>,
              \<lparr>uid = max (sqlite_sequence (database s)) 0 + 5, uname = ''Eve Black'', uemail = ''eve@example.com''\<rparr>]
             5))
   \<and> (users (database s) \<noteq> [] \<longrightarrow>
      populate_database s =
        (s, Skipped_existing (skipped_message (int (length (users (database s)))))
              (int (length (users (database s))))))
   \<and> populate_database (fst (populate_database s)) =
        (fst (populate_database s),
         Skipped_existing
           (skipped_message (int (length (users (database (fst (populate_database s)))))))
           (int (length (users (database (fst (populate_database s)))))))"
proof -
  have skip: "populate_database e =
        (e, Skipped_existing (skipped_message (int (length (users (database e)))))
              (int (length (users (database e)))))"
    if "users (database e) \<noteq> []" for e
    using that by (simp add: populate_database_def list_users_def sql_select_all_def Let_def)
  have seed: "populate_database s =
        (s\<lparr>database := \<lparr>users =
             [\<lparr>uid = max (sqlite_sequence (database s)) 0 + 1, uname = ''Alice Smith'', uemail = ''alice@example.com''\<rparr>,
              \<lparr>uid = max (sqlite_sequence (database s)) 0 + 2, uname = ''Bob Johnson'', uemail = ''bob@example.com''\<rparr>,
              \<lparr>uid = max (sqlite_sequence (database s)) 0 + 3, uname = ''Charlie Lee'', uemail = ''charlie@example.com''\<rparr>,
              \<lparr>uid = max (sqlite_sequence (database s)) 0 + 4, uname = ''Dana White'', uemail = ''dana@example.com''\<rparr>,
              \<lparr>uid = max (sqlite_sequence (database s)) 0 + 5, uname = ''Eve Black'', uemail = ''eve@example.com''\<rparr>],
            sqlite_sequence = max (sqlite_sequence (database s)) 0 + 5\<rparr>\<rparr>,
         Success_created (populated_message 5)
             [\<lparr>uid = max (sqlite_sequence (database s)) 0 + 1, uname = ''Alice Smith'', uemail = ''alice@example.com''\<rparr>,
              \<lparr>uid = max (sqlite_sequence (database s)) 0 + 2, uname = ''Bob Johnson'', uemail = ''bob@example.com''\<rparr>,
              \<lparr>uid = max (sqlite_sequence (database s)) 0 + 3, uname = ''Charlie Lee'', uemail = ''charlie@example.com''\<rparr>,
              \<lparr>uid = max (sqlite_sequence (database s)) 0 + 4, uname = ''Dana White'', uemail = ''dana@example.com''\<rparr>,
              \<lparr>uid = max (sqlite_sequence (database s)) 0 + 5, uname = ''Eve Black'', uemail = ''eve@example.com''\<rparr>]
             5)"
    if empty: "users (database s) = []"
  proof -
    from empty assms have "\<not> leaked_lock s" by (auto simp: leak_ok_def)
    with empty have s: "s = \<lparr>database = \<lparr>users = [], sqlite_sequence = sqlite_sequence (database s)\<rparr>,
                              leaked_lock = False\<rparr>"
      by (cases s, cases "database s") simp
    have "populate_database
            \<lparr>database = \<lparr>users = [], sqlite_sequence = sqlite_sequence (database s)\<rparr>,
              leaked_lock = False\<rparr> =
            (case create_samples sample_users
                    \<lparr>database = \<lparr>users = [], sqlite_sequence = sqlite_sequence (database s)\<rparr>,
                      leaked_lock = False\<rparr> [] of
               (s', created_users) \<Rightarrow>
                 (s', Success_created (populated_message (int (length created_users)))
                        created_users (int (length created_users))))"
      by (simp add: populate_database_def list_users_def sql_select_all_def Let_def)
    then have "populate_database
            \<lparr>database = \<lparr>users = [], sqlite_sequence = sqlite_sequence (database s)\<rparr>,
              leaked_lock = False\<rparr> =
        (\<lparr>database = \<lparr>users =
             [\<lparr>uid = max (sqlite_sequence (database s)) 0 + 1, uname = ''Alice Smith'', uemail = ''alice@example.com''\<rparr>,
              \<lparr>uid = max (sqlite_sequence (database s)) 0 + 2, uname = ''Bob Johnson'', uemail = ''bob@example.com''\<rparr>,
              \<lparr>uid = max (sqlite_sequence (database s)) 0 + 3, uname = ''Charlie Lee'', uemail = ''charlie@example.com''\<rparr>,
              \<lparr>uid = max (sqlite_sequence (database s)) 0 + 4, uname = ''Dana White'', uemail = ''dana@example.com''\<rparr>,
              \<lparr>uid = max (sqlite_sequence (database s)) 0 + 5, uname = ''Eve Black'', uemail = ''eve@example.com''\<rparr>],
            sqlite_sequence = max (sqlite_sequence (database s)) 0 + 5\<rparr>, leaked_lock = False\<rparr>,
         Success_created (populated_message 5)
             [\<lparr>uid = max (sqlite_sequence (database s)) 0 + 1, uname = ''Alice Smith'', uemail = ''alice@example.com''\<rparr>,
              \<lparr>uid = max (sqlite_sequence (database s)) 0 + 2, uname = ''Bob Johnson'', uemail = ''bob@example.com''\<rparr>,
              \<lparr>uid = max (sqlite_sequence (database s)) 0 + 3, uname = ''Charlie Lee'', uemail = ''charlie@example.com''\<rparr>,
              \<lparr>uid = max (sqlite_sequence (database s)) 0 + 4, uname = ''Dana White'', uemail = ''dana@example.com''\<rparr>,
              \<lparr>uid = max (sqlite_sequence (database s)) 0 + 5, uname = ''Eve Black'', uemail = ''eve@example.com''\<rparr>]
             5)"
      by (simp add: create_samples_on_fresh)
    moreover have "s\<lparr>database := d\<rparr> = \<lparr>database = d, leaked_lock = False\<rparr>" for d
      by (subst s) simp
    ultimately show ?thesis using s by metis
  qed
  have "users (database (fst (populate_database s))) \<noteq> []"
    by (cases "users (database s) = []") (simp_all add: seed skip)
  with skip seed show ?thesis by blast
qed

theorem populate_database_seeds_witness:
  "leak_ok fresh_process \<and> users (database fresh_process) = []
   \<and> populate_database fresh_process =
       (\<lparr>database = \<lparr>users =
           [\<lparr>uid = 1, uname = ''Alice Smith'', uemail = ''alice@example.com''\<rparr>,
            \<lparr>uid = 2, uname = ''Bob Johnson'', uemail = ''bob@example.com''\<rparr>,
            \<lparr>uid = 3, uname = ''Charlie Lee'', uemail = ''charlie@example.com''\<rparr>,
            \<lparr>uid = 4, uname = ''Dana White'', uemail = ''dana@example.com''\<rparr>,
            \<lparr>uid = 5, uname = ''Eve Black'', uemail = ''eve@example.com''\<rparr>],
          sqlite_sequence = 5\<rparr>, leaked_lock = False\<rparr>,
        Success_created ''Database populated with 5 sample users.''
           [\<lparr>uid = 1, uname = ''Alice Smith'', uemail = ''alice@example.com''\<rparr>,
            \<lparr>uid = 2, uname = ''Bob Johnson'', uemail = ''bob@example.com''\<rparr>,
            \<lparr>uid = 3, uname = ''Charlie Lee'', uemail = ''charlie@example.com''\<rparr>,
            \<lparr>uid = 4, uname = ''Dana White'', uemail = ''dana@example.com''\<rparr>,
            \<lparr>uid = 5, uname = ''Eve Black'', uemail = ''eve@example.com''\<rparr>]
           5)
   \<and> leak_ok \<lparr>database = \<lparr>users = [\<lparr>uid = 6, uname = ''Zed'', uemail = ''zed@example.com''\<rparr>],
                             sqlite_sequence = 6\<rparr>, leaked_lock = True\<rparr>
   \<and> users (database
        \<lparr>database = \<lparr>users = [\<lparr>uid = 6, uname = ''Zed'', uemail = ''zed@example.com''\<rparr>],
                      sqlite_sequence = 6\<rparr>, leaked_lock = True\<rparr>) \<noteq> []
   \<and> populate_database
        \<lparr>database = \<lparr>users = [\<lparr>uid = 6, uname = ''Zed'', uemail = ''zed@example.com''\<rparr>],
                      sqlite_sequence = 6\<rparr>, leaked_lock = True\<rparr> =
       (\<lparr>database = \<lparr>users = [\<lparr>uid = 6, uname = ''Zed'', uemail = ''zed@example.com''\<rparr>],
                      sqlite_sequence = 6\<rparr>, leaked_lock = True\<rparr>,
        Skipped_existing ''Database already contains 1 users. No sample data added.'' 1)"
proof -
  let ?s = "\<lparr>database = \<lparr>users = [\<lparr>uid = 6, uname = ''Zed'', uemail = ''zed@example.com''\<rparr>],
                          sqlite_sequence = 6\<rparr>, leaked_lock = True\<rparr>"
  have l0: "leak_ok fresh_process" by (simp add: leak_ok_def fresh_process_def)
  have e: "users (database fresh_process) = []" by (simp add: fresh_process_def empty_db_def)
  have l1: "leak_ok ?s" by (simp add: leak_ok_def)
  have n: "users (database ?s) \<noteq> []" by simp
  have m5: "populated_message 5 = ''Database populated with 5 sample users.''"
    by (simp add: populated_message_def str_int_def str_nat.simps digit_char_def)
  have m1: "skipped_message 1 = ''Database already contains 1 users. No sample data added.''"
    by (simp add: skipped_message_def str_int_def str_nat.simps digit_char_def)
  from populate_database_seeds [OF l0] e
  have a: "populate_database fresh_process =
        (fresh_process\<lparr>database := \<lparr>users =
             [\<lparr>uid = max (sqlite_sequence (database fresh_process)) 0 + 1, uname = ''Alice Smith'', uemail = ''alice@example.com''\<rparr>,
              \<lparr>uid = max (sqlite_sequence (database fresh_process)) 0 + 2, uname = ''Bob Johnson'', uemail = ''bob@example.com''\<rparr>,
              \<lparr>uid = max (sqlite_sequence (database fresh_process)) 0 + 3, uname = ''Charlie Lee'', uemail = ''charlie@example.com''\<rparr>,
              \<lparr>uid = max (sqlite_sequence (database fresh_process)) 0 + 4, uname = ''Dana White'', uemail = ''dana@example.com''\<rparr>,
              \<lparr>uid = max (sqlite_sequence (database fresh_process)) 0 + 5, uname = ''Eve Black'', uemail = ''eve@example.com''\<rparr>],
            sqlite_sequence = max (sqlite_sequence (database fresh_process)) 0 + 5\<rparr>\<rparr>,
         Success_created (populated_message 5)
             [\<lparr>uid = max (sqlite_sequence (database fresh_process)) 0 + 1, uname = ''Alice Smith'', uemail = ''alice@example.com''\<rparr>,
              \<lparr>uid = max (sqlite_sequence (database fresh_process)) 0 + 2, uname = ''Bob Johnson'', uemail = ''bob@example.com''\<rparr>,
              \<lparr>uid = max (sqlite_sequence (database fresh_process)) 0 + 3, uname = ''Charlie Lee'', uemail = ''charlie@example.com''\<rparr>,
              \<lparr>uid = max (sqlite_sequence (database fresh_process)) 0 + 4, uname = ''Dana White'', uemail = ''dana@example.com''\<rparr>,
              \<lparr>uid = max (sqlite_sequence (database fresh_process)) 0 + 5, uname = ''Eve Black'', uemail = ''eve@example.com''\<rparr>]
             5)"
    by blast
  from populate_database_seeds [OF l1] n
  have b: "populate_database ?s =
        (?s, Skipped_existing (skipped_message (int (length (users (database ?s)))))
               (int (length (users (database ?s)))))"
    by blast
  from a have a': "populate_database fresh_process =
       (\<lparr>database = \<lparr>users =
           [\<lparr>uid = 1, uname = ''Alice Smith'', uemail = ''alice@example.com''\<rparr>,
            \<lparr>uid = 2, uname = ''Bob Johnson'', uemail = ''bob@example.com''\<rparr>,
            \<lparr>uid = 3, uname = ''Charlie Lee'', uemail = ''charlie@example.com''\<rparr>,
            \<lparr>uid = 4, uname = ''Dana White'', uemail = ''dana@example.com''\<rparr>,
            \<lparr>uid = 5, uname = ''Eve Black'', uemail = ''eve@example.com''\<rparr>],
          sqlite_sequence = 5\<rparr>, leaked_lock = False\<rparr>,
        Success_created ''Database populated with 5 sample users.''
           [\<lparr>uid = 1, uname = ''Alice Smith'', uemail = ''alice@example.com''\<rparr>,
            \<lparr>uid = 2, uname = ''Bob Johnson'', uemail = ''bob@example.com''\<rparr>,
            \<lparr>uid = 3, uname = ''Charlie Lee'', uemail = ''charlie@example.com''\<rparr>,
            \<lparr>uid = 4, uname = ''Dana White'', uemail = ''dana@example.com''\<rparr>,
            \<lparr>uid = 5, uname = ''Eve Black'', uemail = ''eve@example.com''\<rparr>]
           5)"
    by (simp add: fresh_process_def empty_db_def m5)
  from b have b': "populate_database ?s =
       (?s, Skipped_existing ''Database already contains 1 users. No sample data added.'' 1)"
    by (simp add: m1)
  from l0 e l1 n a' b' show ?thesis by simp
qed

text \<open>C2, at the calls where the code departs from it. With Alice in the table,
  \<^verbatim>\<open>create_user("Bob", "alice@example.com")\<close> is answered with the already-exists error,
  and its handler returns without closing the connection; the next
  \<^verbatim>\<open>create_user("Carol", "alice@example.com")\<close> is then answered with the error
  \<^verbatim>\<open>database is locked\<close>, which is not the already-exists error.\<close>

theorem second_create_after_rejected_create:
  "create_user ''Bob'' ''alice@example.com''
       (run [Create ''Alice Smith'' ''alice@example.com'']) =
     (\<lparr>database = \<lparr>users = [\<lparr>uid = 1, uname = ''Alice Smith'', uemail = ''alice@example.com''\<rparr>],
                    sqlite_sequence = 1\<rparr>, leaked_lock = True\<rparr>,
      Error_message (email_exists_message ''alice@example.com''))
   \<and> create_user ''Carol'' ''alice@example.com''
       (fst (create_user ''Bob'' ''alice@example.com''
              (run [Create ''Alice Smith'' ''alice@example.com'']))) =
     (\<lparr>database = \<lparr>users = [\<lparr>uid = 1, uname = ''Alice Smith'', uemail = ''alice@example.com''\<rparr>],
                    sqlite_sequence = 1\<rparr>, leaked_lock = True\<rparr>,
      Error_message ''database is locked'')
   \<and> Error_message ''database is locked'' \<noteq>
       Error_message (email_exists_message ''alice@example.com'')"
  by (simp add: run_alice create_user_def sql_insert_def locked_message_def
        email_exists_message_def)

text \<open>C3, at the calls where the code departs from it. After Alice and Bob are created and
  an update of Bob to the email of Alice is rejected, the write lock is left held; a
  \<^verbatim>\<open>create_user\<close> with the email of Bob and the same \<^verbatim>\<open>update_user\<close> again, both of
  which would break the uniqueness of emails, are then answered with the error
  \<^verbatim>\<open>database is locked\<close> and not with the already-exists error. The table is unchanged,
  and the emails stay pairwise different in every state (\<open>table_ok_run\<close>).\<close>

theorem duplicate_write_while_locked:
  "run [Create ''Alice Smith'' ''alice@example.com'', Create ''Bob Johnson'' ''bob@example.com'',
        Update 2 None (Some ''alice@example.com'')] =
     \<lparr>database = \<lparr>users = [\<lparr>uid = 1, uname = ''Alice Smith'', uemail = ''alice@example.com''\<rparr>,
                            \<lparr>uid = 2, uname = ''Bob Johnson'', uemail = ''bob@example.com''\<rparr>],
                   sqlite_sequence = 2\<rparr>, leaked_lock = True\<rparr>
   \<and> create_user ''Carol'' ''bob@example.com''
       (run [Create ''Alice Smith'' ''alice@example.com'', Create ''Bob Johnson'' ''bob@example.com'',
             Update 2 None (Some ''alice@example.com'')]) =
     (\<lparr>database = \<lparr>users = [\<lparr>uid = 1, uname = ''Alice Smith'', uemail = ''alice@example.com''\<rparr>,
                             \<lparr>uid = 2, uname = ''Bob Johnson'', uemail = ''bob@example.com''\<rparr>],
                    sqlite_sequence = 2\<rparr>, leaked_lock = True\<rparr>,
      Error_message ''database is locked'')
   \<and> update_user 2 None (Some ''alice@example.com'')
       (run [Create ''Alice Smith'' ''alice@example.com'', Create ''Bob Johnson'' ''bob@example.com'',
             Update 2 None (Some ''alice@example.com'')]) =
     (\<lparr>database = \<lparr>users = [\<lparr>uid = 1, uname = ''Alice Smith'', uemail = ''alice@example.com''\<rparr>,
                             \<lparr>uid = 2, uname = ''Bob Johnson'', uemail = ''bob@example.com''\<rparr>],
                    sqlite_sequence = 2\<rparr>, leaked_lock = True\<rparr>,
      Inr (Error_message ''database is locked''))"
proof -
  have r: "run [Create ''Alice Smith'' ''alice@example.com'', Create ''Bob Johnson'' ''bob@example.com'',
        Update 2 None (Some ''alice@example.com'')] =
     \<lparr>database = \<lparr>users = [\<lparr>uid = 1, uname = ''Alice Smith'', uemail = ''alice@example.com''\<rparr>,
                            \<lparr>uid = 2, uname = ''Bob Johnson'', uemail = ''bob@example.com''\<rparr>],
                   sqlite_sequence = 2\<rparr>, leaked_lock = True\<rparr>"
    by (simp add: run_def fresh_process_def empty_db_def create_user_def sql_insert_def
          update_user_def read_user_def sql_select_by_id_def sql_update_def in_int64_def Let_def)
  show ?thesis
    unfolding r
    by (simp add: create_user_def sql_insert_def update_user_def read_user_def
          sql_select_by_id_def sql_update_def in_int64_def locked_message_def Let_def)
qed

text \<open>C7, at the calls where the code departs from it. After Alice is created and a second
  \<^verbatim>\<open>create_user\<close> with her email is rejected, \<^verbatim>\<open>delete_all_users\<close> lets
  \<^verbatim>\<open>OperationalError: database is locked\<close> through, reports nothing, and the table still
  lists Alice.\<close>

theorem delete_all_while_locked:
  "delete_all_users
       (run [Create ''Alice Smith'' ''alice@example.com'', Create ''Bob'' ''alice@example.com'']) =
     (\<lparr>database = \<lparr>users = [\<lparr>uid = 1, uname = ''Alice Smith'', uemail = ''alice@example.com''\<rparr>],
                    sqlite_sequence = 1\<rparr>, leaked_lock = True\<rparr>,
      Inl (OperationalError ''database is locked''))
   \<and> list_users (fst (delete_all_users
       (run [Create ''Alice Smith'' ''alice@example.com'', Create ''Bob'' ''alice@example.com'']))) =
     [\<lparr>uid = 1, uname = ''Alice Smith'', uemail = ''alice@example.com''\<rparr>]"
  by (simp add: run_alice_rejected delete_all_users_def sql_delete_all_def sql_count_def
        list_users_def sql_select_all_def locked_message_def Let_def)

text \<open>C9, at the calls where the code departs from it. \<^verbatim>\<open>delete_user(2**63)\<close>, an id no
  row has, lets \<^verbatim>\<open>OverflowError\<close> through and answers no dictionary; and after a rejected
  \<^verbatim>\<open>create_user\<close>, \<^verbatim>\<open>delete_user(7)\<close>, again an id no row has, lets
  \<^verbatim>\<open>OperationalError: database is locked\<close> through.\<close>

theorem delete_user_raises:
  "delete_user 9223372036854775808 fresh_process = (fresh_process, Inl OverflowError)
   \<and> delete_user 7
       (run [Create ''Alice Smith'' ''alice@example.com'', Create ''Bob'' ''alice@example.com'']) =
     (\<lparr>database = \<lparr>users = [\<lparr>uid = 1, uname = ''Alice Smith'', uemail = ''alice@example.com''\<rparr>],
                    sqlite_sequence = 1\<rparr>, leaked_lock = True\<rparr>,
      Inl (OperationalError ''database is locked''))"
  by (simp add: run_alice_rejected delete_user_def sql_delete_def in_int64_def locked_message_def)

text \<open>C4 does not hold for every update of an existing id: with Alice as user 1 and Bob as
  user 2, \<^verbatim>\<open>update_user(2, email="alice@example.com")\<close> supplies a field, yet it answers
  the error that a user with the email already exists, the row of user 2 is not written and
  no merged user is returned.\<close>

theorem update_user_collision_counterexample:
  "read_user 2
      \<lparr>database = \<lparr>users = [\<lparr>uid = 1, uname = ''Alice Smith'', uemail = ''alice@example.com''\<rparr>,
                             \<lparr>uid = 2, uname = ''Bob Johnson'', uemail = ''bob@example.com''\<rparr>],
                    sqlite_sequence = 2\<rparr>, leaked_lock = False\<rparr> =
      Inr (Success_user \<lparr>uid = 2, uname = ''Bob Johnson'', uemail = ''bob@example.com''\<rparr>)
   \<and> update_user 2 None (Some ''alice@example.com'')
      \<lparr>database = \<lparr>users = [\<lparr>uid = 1, uname = ''Alice Smith'', uemail = ''alice@example.com''\<rparr>,
                             \<lparr>uid = 2, uname = ''Bob Johnson'', uemail = ''bob@example.com''\<rparr>],
                    sqlite_sequence = 2\<rparr>, leaked_lock = False\<rparr> =
      (\<lparr>database = \<lparr>users = [\<lparr>uid = 1, uname = ''Alice Smith'', uemail = ''alice@example.com''\<rparr>,
                              \<lparr>uid = 2, uname = ''Bob Johnson'', uemail = ''bob@example.com''\<rparr>],
                     sqlite_sequence = 2\<rparr>, leaked_lock = True\<rparr>,
       Inr (Error_message (email_exists_message ''alice@example.com'')))
   \<and> snd (update_user 2 None (Some ''alice@example.com'')
      \<lparr>database = \<lparr>users = [\<lparr>uid = 1, uname = ''Alice Smith'', uemail = ''alice@example.com''\<rparr>,
                             \<lparr>uid = 2, uname = ''Bob Johnson'', uemail = ''bob@example.com''\<rparr>],
                    sqlite_sequence = 2\<rparr>, leaked_lock = False\<rparr>) \<noteq>
      Inr (Success_updated_user \<lparr>uid = 2, uname = ''Bob Johnson'', uemail = ''alice@example.com''\<rparr>)
   \<and> read_user 2 (fst (update_user 2 None (Some ''alice@example.com'')
      \<lparr>database = \<lparr>users = [\<lparr>uid = 1, uname = ''Alice Smith'', uemail = ''alice@example.com''\<rparr>,
                             \<lparr>uid = 2, uname = ''Bob Johnson'', uemail = ''bob@example.com''\<rparr>],
                    sqlite_sequence = 2\<rparr>, leaked_lock = False\<rparr>)) \<noteq>
      Inr (Success_user \<lparr>uid = 2, uname = ''Bob Johnson'', uemail = ''alice@example.com''\<rparr>)"
  by (simp add: update_user_def read_user_def sql_select_by_id_def sql_update_def in_int64_def
        Let_def)

text \<open>C4, as the code has it by design. In a database whose emails are pairwise different
  and whose write lock no connection left open holds, for every id that \<^verbatim>\<open>read_user\<close>
  finds, \<^verbatim>\<open>update_user\<close> with at least one of name and email supplied, where a supplied
  email is not the email of a row with another id, answers the merged user (each supplied
  field new, each field not supplied as the row had it), and \<^verbatim>\<open>read_user\<close> of the id then
  answers that same merged user.\<close>

theorem update_user_merges:
  assumes "\<not> leaked_lock s"
    and "distinct (map uemail (users (database s)))"
    and "read_user user_id s = Inr (Success_user current)"
    and "name \<noteq> None \<or> email \<noteq> None"
    and "case email of None \<Rightarrow> True
         | Some e \<Rightarrow> \<not> list_ex (\<lambda>u. uid u \<noteq> user_id \<and> uemail u = e) (users (database s))"
  shows "snd (update_user user_id name email s) =
           Inr (Success_updated_user
             \<lparr>uid = user_id,
               uname = (case name of Some n \<Rightarrow> n | None \<Rightarrow> uname current),
               uemail = (case email of Some e \<Rightarrow> e | None \<Rightarrow> uemail current)\<rparr>)
       \<and> read_user user_id (fst (update_user user_id name email s)) =
           Inr (Success_user
             \<lparr>uid = user_id,
               uname = (case name of Some n \<Rightarrow> n | None \<Rightarrow> uname current),
               uemail = (case email of Some e \<Rightarrow> e | None \<Rightarrow> uemail current)\<rparr>)"
proof -
  define new_name where "new_name = (case name of Some n \<Rightarrow> n | None \<Rightarrow> uname current)"
  define new_email where "new_email = (case email of Some e \<Rightarrow> e | None \<Rightarrow> uemail current)"
  define f :: "user \<Rightarrow> user"
    where "f = (\<lambda>u. if uid u = user_id then u\<lparr>uname := new_name, uemail := new_email\<rparr> else u)"
  from assms(3) have range: "in_int64 user_id"
    and found: "find (\<lambda>u. uid u = user_id) (users (database s)) = Some current"
    by (simp_all add: read_user_found)
  from found have ex: "list_ex (\<lambda>u. uid u = user_id) (users (database s))"
    and cur_id: "uid current = user_id" and cur_in: "current \<in> set (users (database s))"
    by (auto dest: find_some_ex)
  have free: "\<not> list_ex (\<lambda>u. uid u \<noteq> user_id \<and> uemail u = new_email) (users (database s))"
  proof (cases email)
    case None
    have "uid u = user_id" if "u \<in> set (users (database s))" and "uemail u = uemail current" for u
    proof -
      from assms(2) have "inj_on uemail (set (users (database s)))" by (simp add: distinct_map)
      with that cur_in have "u = current" by (auto dest: inj_onD)
      with cur_id show ?thesis by simp
    qed
    with None show ?thesis by (auto simp: new_email_def list_ex_iff)
  next
    case (Some e)
    with assms(5) show ?thesis by (simp add: new_email_def)
  qed
  from sql_update_writes [OF range assms(1) ex free, of new_name]
  obtain c where c: "0 < c"
    and upd: "sql_update new_name new_email user_id s =
        Inr (s\<lparr>database := \<lparr>users = map f (users (database s)),
                               sqlite_sequence = sqlite_sequence (database s)\<rparr>\<rparr>, c)"
    unfolding f_def by blast
  from assms(3,4) c upd
  have res: "update_user user_id name email s =
      (s\<lparr>database := \<lparr>users = map f (users (database s)),
                         sqlite_sequence = sqlite_sequence (database s)\<rparr>\<rparr>,
       Inr (Success_updated_user \<lparr>uid = user_id, uname = new_name, uemail = new_email\<rparr>))"
    by (auto simp: update_user_def Let_def new_name_def new_email_def)
  have "find (\<lambda>u. uid u = user_id) (map f (users (database s))) = Some (f current)"
    using found by (rule find_map_same) (simp add: f_def)
  moreover have "f current = \<lparr>uid = user_id, uname = new_name, uemail = new_email\<rparr>"
    using cur_id by (cases current) (simp add: f_def)
  ultimately have "read_user user_id
        (s\<lparr>database := \<lparr>users = map f (users (database s)),
                           sqlite_sequence = sqlite_sequence (database s)\<rparr>\<rparr>) =
      Inr (Success_user \<lparr>uid = user_id, uname = new_name, uemail = new_email\<rparr>)"
    using range by (simp add: read_user_found)
  with res show ?thesis by (simp add: new_name_def new_email_def)
qed

theorem update_user_merges_witness:
  "\<not> leaked_lock
      \<lparr>database = \<lparr>users = [\<lparr>uid = 1, uname = ''Alice Smith'', uemail = ''alice@example.com''\<rparr>,
                             \<lparr>uid = 2, uname = ''Bob Johnson'', uemail = ''bob@example.com''\<rparr>],
                    sqlite_sequence = 2\<rparr>, leaked_lock = False\<rparr>
   \<and> distinct (map uemail (users (database
      \<lparr>database = \<lparr>users = [\<lparr>uid = 1, uname = ''Alice Smith'', uemail = ''alice@example.com''\<rparr>,
                             \<lparr>uid = 2, uname = ''Bob Johnson'', uemail = ''bob@example.com''\<rparr>],
                    sqlite_sequence = 2\<rparr>, leaked_lock = False\<rparr>)))
   \<and> read_user 2
      \<lparr>database = \<lparr>users = [\<lparr>uid = 1, uname = ''Alice Smith'', uemail = ''alice@example.com''\<rparr>,
                             \<lparr>uid = 2, uname = ''Bob Johnson'', uemail = ''bob@example.com''\<rparr>],
                    sqlite_sequence = 2\<rparr>, leaked_lock = False\<rparr> =
      Inr (Success_user \<lparr>uid = 2, uname = ''Bob Johnson'', uemail = ''bob@example.com''\<rparr>)
   \<and> snd (update_user 2 (Some ''Bobby'') None
      \<lparr>database = \<lparr>users = [\<lparr>uid = 1, uname = ''Alice Smith'', uemail = ''alice@example.com''\<rparr>,
                             \<lparr>uid = 2, uname = ''Bob Johnson'', uemail = ''bob@example.com''\<rparr>],
                    sqlite_sequence = 2\<rparr>, leaked_lock = False\<rparr>) =
      Inr (Success_updated_user \<lparr>uid = 2, uname = ''Bobby'', uemail = ''bob@example.com''\<rparr>)
   \<and> read_user 2 (fst (update_user 2 (Some ''Bobby'') None
      \<lparr>database = \<lparr>users = [\<lparr>uid = 1, uname = ''Alice Smith'', uemail = ''alice@example.com''\<rparr>,
                             \<lparr>uid = 2, uname = ''Bob Johnson'', uemail = ''bob@example.com''\<rparr>],
                    sqlite_sequence = 2\<rparr>, leaked_lock = False\<rparr>)) =
      Inr (Success_user \<lparr>uid = 2, uname = ''Bobby'', uemail = ''bob@example.com''\<rparr>)
   \<and> snd (update_user 2 None (Some ''rob@example.com'')
      \<lparr>database = \<lparr>users = [\<lparr>uid = 1, uname = ''Alice Smith'', uemail = ''alice@example.com''\<rparr>,
                             \<lparr>uid = 2, uname = ''Bob Johnson'', uemail = ''bob@example.com''\<rparr>],
                    sqlite_sequence = 2\<rparr>, leaked_lock = False\<rparr>) =
      Inr (Success_updated_user \<lparr>uid = 2, uname = ''Bob Johnson'', uemail = ''rob@example.com''\<rparr>)"
proof -
  let ?s = "\<lparr>database = \<lparr>users = [\<lparr>uid = 1, uname = ''Alice Smith'', uemail = ''alice@example.com''\<rparr>,
                                   \<lparr>uid = 2, uname = ''Bob Johnson'', uemail = ''bob@example.com''\<rparr>],
                          sqlite_sequence = 2\<rparr>, leaked_lock = False\<rparr>"
  let ?bob = "\<lparr>uid = 2, uname = ''Bob Johnson'', uemail = ''bob@example.com''\<rparr>"
  have h0: "\<not> leaked_lock ?s" by simp
  have h1: "distinct (map uemail (users (database ?s)))" by simp
  have h2: "read_user 2 ?s = Inr (Success_user ?bob)"
    by (simp add: read_user_def sql_select_by_id_def in_int64_def)
  have h3: "Some ''Bobby'' \<noteq> None \<or> (None :: string option) \<noteq> None" by simp
  have h4: "case (None :: string option) of None \<Rightarrow> True
         | Some e \<Rightarrow> \<not> list_ex (\<lambda>u. uid u \<noteq> 2 \<and> uemail u = e) (users (database ?s))" by simp
  have k3: "(None :: string option) \<noteq> None \<or> Some ''rob@example.com'' \<noteq> None" by simp
  have k4: "case Some ''rob@example.com'' of None \<Rightarrow> True
         | Some e \<Rightarrow> \<not> list_ex (\<lambda>u. uid u \<noteq> 2 \<and> uemail u = e) (users (database ?s))" by simp
  from update_user_merges [OF h0 h1 h2 h3 h4] update_user_merges [OF h0 h1 h2 k3 k4] h0 h1 h2
  show ?thesis by simp
qed

end
